theory Spec2Isabelle
  imports Complex_Main "HOL-Library.Sublist"
begin

section \<open>Python values, errors and arithmetic\<close>

text \<open>
  The exceptions the modelled code can raise. A function of the source that can raise
  returns \<open>py_error + 'a\<close>: \<open>Inl e\<close> is the exception \<open>e\<close> leaving the function,
  \<open>Inr v\<close> is the returned value \<open>v\<close>. Nothing in the source catches an exception.
\<close>

datatype py_error =
    KeyError
  | IndexError
  | TypeError
  | ValueError
  | ZeroDivisionError
  | JSONDecodeError
  | RequestException

text \<open>
  Coordinates are Python floats. Their arithmetic is kept abstract: \<open>zero_of\<close> is the
  \<open>0\<close> which \<open>sum\<close> starts from, \<open>add_of\<close> is \<open>+\<close>, and \<open>div_of s n\<close> is \<open>s / n\<close> for a
  length \<open>n > 0\<close>. Equality of the type \<open>'n\<close> stands for Python's \<open>==\<close> on the
  numbers that occur. \<open>exact_arith\<close> is the arithmetic without rounding.
\<close>

record 'n arith =
  zero_of :: 'n
  add_of :: "'n \<Rightarrow> 'n \<Rightarrow> 'n"
  div_of :: "'n \<Rightarrow> nat \<Rightarrow> 'n"

definition exact_arith :: "real arith" where
  "exact_arith = \<lparr>zero_of = 0, add_of = (+), div_of = (\<lambda>s n. s / real n)\<rparr>"

text \<open>\<open>sum(iterable)\<close>: the accumulator starts at \<open>0\<close> and takes the items left to right.\<close>

fun sum_loop :: "'n arith \<Rightarrow> 'n \<Rightarrow> 'n list \<Rightarrow> 'n" where
  "sum_loop A acc [] = acc"
| "sum_loop A acc (x # xs) = sum_loop A (add_of A acc x) xs"

definition py_sum :: "'n arith \<Rightarrow> 'n list \<Rightarrow> 'n" where
  "py_sum A xs = sum_loop A (zero_of A) xs"

text \<open>\<open>s / len(xs)\<close>: Python raises \<open>ZeroDivisionError\<close> when the length is \<open>0\<close>.\<close>

definition py_div :: "'n arith \<Rightarrow> 'n \<Rightarrow> nat \<Rightarrow> py_error + 'n" where
  "py_div A s n = (if n = 0 then Inl ZeroDivisionError else Inr (div_of A s n))"

text \<open>
  The arithmetic mean in the words of the specification: the sum of the values divided by
  their number, defined for a non-empty sequence only.
\<close>

definition arithmetic_mean :: "'n arith \<Rightarrow> 'n list \<Rightarrow> 'n option" where
  "arithmetic_mean A xs =
     (if xs = [] then None
      else Some (div_of A (foldl (add_of A) (zero_of A) xs) (length xs)))"

section \<open>The parsed response\<close>

text \<open>
  The service answers with JSON of the shape
  \<^verbatim>\<open>{ "features": [ { "geometry": { "rings": [ [ [x, y], ... ], ... ] } } ] }\<close>.
  \<open>json_data\<close> is \<open>None\<close> (\<open>JNull\<close>) or a dict; \<open>JDict ks fs\<close> is a dict with the keys
  \<open>ks\<close> besides \<open>"features"\<close>, and with the key \<open>"features"\<close> exactly when
  \<open>fs = Some l\<close>. A feature may lack \<open>"geometry"\<close> and a geometry may lack \<open>"rings"\<close>.
  Every point is a pair of numbers.
\<close>

type_synonym 'n point = "'n \<times> 'n"

type_synonym 'n ring = "'n point list"

datatype 'n geometry = Geometry (rings: "'n ring list option")

datatype 'n feature = Feature (geometry: "'n geometry option")

datatype 'n json_data =
    JNull
  | JDict (other_keys: "string list") (features: "'n feature list option")

text \<open>\<open>if json_data:\<close> \<open>None\<close> and the empty dict are falsy, every other dict is truthy.\<close>

fun truthy :: "'n json_data \<Rightarrow> bool" where
  "truthy JNull = False"
| "truthy (JDict ks None) = (ks \<noteq> [])"
| "truthy (JDict ks (Some fs)) = True"

text \<open>The subscripts of \<open>json_data["features"][0]["geometry"]["rings"]\<close>, one by one.\<close>

fun getitem_features :: "'n json_data \<Rightarrow> py_error + 'n feature list" where
  "getitem_features JNull = Inl TypeError"
| "getitem_features (JDict ks None) = Inl KeyError"
| "getitem_features (JDict ks (Some fs)) = Inr fs"

fun getitem_0 :: "'a list \<Rightarrow> py_error + 'a" where
  "getitem_0 [] = Inl IndexError"
| "getitem_0 (x # xs) = Inr x"

fun getitem_geometry :: "'n feature \<Rightarrow> py_error + 'n geometry" where
  "getitem_geometry (Feature None) = Inl KeyError"
| "getitem_geometry (Feature (Some g)) = Inr g"

fun getitem_rings :: "'n geometry \<Rightarrow> py_error + 'n ring list" where
  "getitem_rings (Geometry None) = Inl KeyError"
| "getitem_rings (Geometry (Some rs)) = Inr rs"

section \<open>convert_coordinates\<close>

text \<open>
  \<open>tr x y\<close> is \<open>transformer.transform(x, y)\<close> of the transformer from EPSG:3844 to
  EPSG:4326 built with \<open>always_xy=True\<close>; the projection itself belongs to the library
  and is a parameter. The loop over the rings extends \<open>converted_coordinates\<close> by each
  converted ring.
\<close>

fun extend_rings ::
  "('n \<Rightarrow> 'n \<Rightarrow> 'n point) \<Rightarrow> 'n point list \<Rightarrow> 'n ring list \<Rightarrow> 'n point list" where
  "extend_rings tr converted_coordinates [] = converted_coordinates"
| "extend_rings tr converted_coordinates (ring # rest) =
     extend_rings tr (converted_coordinates @ map (\<lambda>(x, y). tr x y) ring) rest"

definition convert_coordinates ::
  "'n arith \<Rightarrow> ('n \<Rightarrow> 'n \<Rightarrow> 'n point) \<Rightarrow> 'n json_data \<Rightarrow>
     py_error + ('n point list option \<times> 'n option \<times> 'n option)" where
  "convert_coordinates A tr json_data =
     (if truthy json_data then
        (case getitem_features json_data of Inl e \<Rightarrow> Inl e | Inr fs \<Rightarrow>
         (case getitem_0 fs of Inl e \<Rightarrow> Inl e | Inr f \<Rightarrow>
          (case getitem_geometry f of Inl e \<Rightarrow> Inl e | Inr g \<Rightarrow>
           (case getitem_rings g of Inl e \<Rightarrow> Inl e | Inr rs \<Rightarrow>
            (let converted_coordinates = extend_rings tr [] rs in
             (case py_div A (py_sum A (map fst converted_coordinates))
                     (length converted_coordinates) of
                Inl e \<Rightarrow> Inl e
              | Inr central_lat \<Rightarrow>
             (case py_div A (py_sum A (map snd converted_coordinates))
                     (length converted_coordinates) of
                Inl e \<Rightarrow> Inl e
              | Inr central_lon \<Rightarrow>
                  Inr (Some converted_coordinates, Some central_lat, Some central_lon))))))))
      else Inr (None, None, None))"

section \<open>fetch_json\<close>

text \<open>
  What \<open>requests.get(url)\<close> gives: the call raises (\<open>Inl\<close>) or returns a response with
  a status code and a body. \<open>body = None\<close> is a body that is not valid JSON, for which
  \<open>response.json()\<close> raises; \<open>Some j\<close> is a body that parses to \<open>j\<close>. The network is the
  parameter \<open>requests_get\<close>.
\<close>

record 'n response =
  status_code :: int
  body :: "'n json_data option"

definition response_json :: "'n response \<Rightarrow> py_error + 'n json_data" where
  "response_json response =
     (case body response of None \<Rightarrow> Inl JSONDecodeError | Some j \<Rightarrow> Inr j)"

text \<open>The \<open>None\<close> that \<open>fetch_json\<close> returns for another status than 200 is \<open>JNull\<close>.\<close>

definition fetch_json ::
  "(string \<Rightarrow> py_error + 'n response) \<Rightarrow> string \<Rightarrow> py_error + 'n json_data" where
  "fetch_json requests_get url =
     (case requests_get url of
        Inl e \<Rightarrow> Inl e
      | Inr response \<Rightarrow>
          if status_code response = 200 then response_json response else Inr JNull)"

section \<open>extract_url_from_html\<close>

text \<open>
  \<open>re.search(r'href="([^"]+)"', html)\<close>: the leftmost position where \<open>href="\<close> is
  followed by at least one character other than the double quote and then by a double
  quote; group 1 is the text between the quotes. \<open>dq\<close> is the double quote.
\<close>

definition dq :: char where
  "dq = CHR 0x22"

definition match_href :: "string \<Rightarrow> string option" where
  "match_href s =
     (if take 6 s = ''href='' @ [dq] then
        (let group1 = takeWhile (\<lambda>c. c \<noteq> dq) (drop 6 s) in
         if group1 \<noteq> [] \<and> dropWhile (\<lambda>c. c \<noteq> dq) (drop 6 s) \<noteq> []
         then Some group1 else None)
      else None)"

fun re_search_href :: "string \<Rightarrow> string option" where
  "re_search_href [] = None"
| "re_search_href (c # cs) =
     (case match_href (c # cs) of Some g \<Rightarrow> Some g | None \<Rightarrow> re_search_href cs)"

definition extract_url_from_html :: "string \<Rightarrow> string option" where
  "extract_url_from_html html = re_search_href html"

section \<open>The record store\<close>

text \<open>
  A pending request is the dict that the Add button builds. \<open>st.session_state.recorduri\<close>
  is absent (\<open>None\<close>) until the first button creates the list. Python compares the dicts
  with \<open>==\<close>, field by field.
\<close>

record lookup_request =
  Judet :: string
  Judet_ID :: int
  Comuna :: string
  Comuna_ID :: int
  Numar_Carte_Funciara :: int
  Link :: string

definition add_button ::
  "lookup_request \<Rightarrow> lookup_request list option \<Rightarrow> lookup_request list option" where
  "add_button new_record recorduri =
     (if Judet new_record \<noteq> [] \<and> Comuna new_record \<noteq> [] \<and> Numar_Carte_Funciara new_record \<noteq> 0
      then
        (let rs = (case recorduri of None \<Rightarrow> [] | Some rs \<Rightarrow> rs) in
         if new_record \<notin> set rs then Some (rs @ [new_record]) else Some rs)
      else recorduri)"

definition dummy_records :: "lookup_request list" where
  "dummy_records =
     [\<lparr>Judet = ''Arges'', Judet_ID = 36, Comuna = ''Ungheni'', Comuna_ID = 19560,
       Numar_Carte_Funciara = 12476,
       Link = ''https://geoportal.ancpi.ro/maps/rest/services/eterra3_publish/MapServer/1/query?f=json&outFields=NATIONAL_CADASTRAL_REFERENCE&spatialRel=esriSpatialRelIntersects&where=INSPIRE_ID%20%3D%20%27RO.38.19560.12476%27''\<rparr>,
      \<lparr>Judet = ''Gorj'', Judet_ID = 181, Comuna = ''Pades'', Comuna_ID = 81095,
       Numar_Carte_Funciara = 39107,
       Link = ''https://geoportal.ancpi.ro/maps/rest/services/eterra3_publish/MapServer/1/query?f=json&outFields=NATIONAL_CADASTRAL_REFERENCE&spatialRel=esriSpatialRelIntersects&where=INSPIRE_ID%20%3D%20%27RO.181.81095.39107%27''\<rparr>]"

text \<open>The loop \<open>for record in dummy_records\<close> of the Add Dummy Data button.\<close>

fun append_missing :: "lookup_request list \<Rightarrow> lookup_request list \<Rightarrow> lookup_request list" where
  "append_missing recorduri [] = recorduri"
| "append_missing recorduri (r # rs) =
     append_missing (if r \<notin> set recorduri then recorduri @ [r] else recorduri) rs"

definition add_dummy_data :: "lookup_request list option \<Rightarrow> lookup_request list option" where
  "add_dummy_data recorduri =
     Some (append_missing (case recorduri of None \<Rightarrow> [] | Some rs \<Rightarrow> rs) dummy_records)"

text \<open>\<open>delete_record(index)\<close>: \<open>recorduri.pop(index)\<close> raises when the index is out of range.\<close>

definition delete_record :: "nat \<Rightarrow> lookup_request list \<Rightarrow> py_error + lookup_request list" where
  "delete_record index recorduri =
     (if index < length recorduri
      then Inr (take index recorduri @ drop (Suc index) recorduri)
      else Inl IndexError)"

text \<open>
  The states of the store that the buttons can produce: each run of the script starts
  from the state the previous run left and handles one button.
\<close>

inductive reachable :: "lookup_request list option \<Rightarrow> bool" where
  start: "reachable None"
| add: "reachable s \<Longrightarrow> reachable (add_button r s)"
| dummy: "reachable s \<Longrightarrow> reachable (add_dummy_data s)"
| delete: "reachable (Some rs) \<Longrightarrow> delete_record i rs = Inr rs' \<Longrightarrow> reachable (Some rs')"

section \<open>The processing loop of main\<close>

text \<open>The frame of the pending requests, whose links are wrapped in an anchor.\<close>

definition request_link :: "string \<Rightarrow> string" where
  "request_link x =
     ''<a href='' @ [dq] @ x @ [dq] @ '' target='' @ [dq] @ ''_blank'' @ [dq] @ ''>request_link</a>''"

definition records_frame :: "lookup_request list \<Rightarrow> lookup_request list" where
  "records_frame recorduri = map (\<lambda>r. r\<lparr>Link := request_link (Link r)\<rparr>) recorduri"

text \<open>The six lists and the set that the loop fills, one entry of each list per record.\<close>

record 'n batch =
  converted_coordinates_list :: "'n point list option list"
  central_lat_list :: "'n option list"
  central_lon_list :: "'n option list"
  judet_list :: "string option list"
  comuna_list :: "string option list"
  nr_carte_funciara_list :: "int option list"
  unique_coordinates :: "'n point set"

definition empty_batch :: "'n batch" where
  "empty_batch =
     \<lparr>converted_coordinates_list = [], central_lat_list = [], central_lon_list = [],
      judet_list = [], comuna_list = [], nr_carte_funciara_list = [],
      unique_coordinates = {}\<rparr>"

text \<open>The two \<open>else\<close> branches of the loop body: \<open>None\<close> is appended to each list.\<close>

definition append_none :: "'n batch \<Rightarrow> 'n batch" where
  "append_none st =
     st\<lparr>converted_coordinates_list := converted_coordinates_list st @ [None],
        central_lat_list := central_lat_list st @ [None],
        central_lon_list := central_lon_list st @ [None],
        judet_list := judet_list st @ [None],
        comuna_list := comuna_list st @ [None],
        nr_carte_funciara_list := nr_carte_funciara_list st @ [None]\<rparr>"

text \<open>
  The deduplicating collector: the list comprehension that keeps the coordinates not in
  \<open>unique_coordinates\<close> (here \<open>seen\<close>), and the \<open>update\<close> of the set by the kept
  coordinates after it. The result is the kept list and the new set.
\<close>

definition accumulate :: "'n point list \<Rightarrow> 'n point set \<Rightarrow> 'n point list \<times> 'n point set" where
  "accumulate converted_coordinates seen =
     (let unique_converted_coordinates =
            filter (\<lambda>coord. coord \<notin> seen) converted_coordinates
      in (unique_converted_coordinates, seen \<union> set unique_converted_coordinates))"

text \<open>The loop body for one row of the frame (the pause between requests is left out).\<close>

definition process_row ::
  "'n arith \<Rightarrow> ('n \<Rightarrow> 'n \<Rightarrow> 'n point) \<Rightarrow> (string \<Rightarrow> py_error + 'n response) \<Rightarrow>
     'n batch \<Rightarrow> lookup_request \<Rightarrow> py_error + 'n batch" where
  "process_row A tr requests_get st row =
     (case extract_url_from_html (Link row) of
        None \<Rightarrow> Inr (append_none st)
      | Some url \<Rightarrow>
          if url = [] then Inr (append_none st)
          else
            (case fetch_json requests_get url of
               Inl e \<Rightarrow> Inl e
             | Inr json_data \<Rightarrow>
                 if truthy json_data then
                   (case convert_coordinates A tr json_data of
                      Inl e \<Rightarrow> Inl e
                    | Inr (None, central_lat, central_lon) \<Rightarrow> Inl TypeError
                    | Inr (Some converted_coordinates, central_lat, central_lon) \<Rightarrow>
                        (case accumulate converted_coordinates (unique_coordinates st) of
                           (unique_converted_coordinates, unique_coordinates') \<Rightarrow>
                             Inr \<lparr>converted_coordinates_list =
                                    converted_coordinates_list st @ [Some unique_converted_coordinates],
                                  central_lat_list = central_lat_list st @ [central_lat],
                                  central_lon_list = central_lon_list st @ [central_lon],
                                  judet_list = judet_list st @ [Some (Judet row)],
                                  comuna_list = comuna_list st @ [Some (Comuna row)],
                                  nr_carte_funciara_list =
                                    nr_carte_funciara_list st @ [Some (Numar_Carte_Funciara row)],
                                  unique_coordinates = unique_coordinates'\<rparr>))
                 else Inr (append_none st)))"

fun process_rows ::
  "'n arith \<Rightarrow> ('n \<Rightarrow> 'n \<Rightarrow> 'n point) \<Rightarrow> (string \<Rightarrow> py_error + 'n response) \<Rightarrow>
     'n batch \<Rightarrow> lookup_request list \<Rightarrow> py_error + 'n batch" where
  "process_rows A tr requests_get st [] = Inr st"
| "process_rows A tr requests_get st (row # rows) =
     (case process_row A tr requests_get st row of
        Inl e \<Rightarrow> Inl e
      | Inr st' \<Rightarrow> process_rows A tr requests_get st' rows)"

section \<open>The frames and create_output_dataframe\<close>

text \<open>
  A frame is the list of its rows. \<open>idx\<close> is the index label of the row, which pandas
  keeps when a row is exploded. A cell that is \<open>None\<close> is a missing value (Python's
  \<open>None\<close> or pandas' \<open>NaN\<close>). The type \<open>'c\<close> is the type of the cells of the column
  \<open>Converted_Coordinates\<close>: a list of points before \<open>explode\<close>, one point after it.
\<close>

record 'n scalars =
  idx :: nat
  County :: "string option"
  Local_UAT :: "string option"
  Cadastral_number :: "int option"
  Central_Lat :: "'n option"
  Central_Lon :: "'n option"

record ('n, 'c) frame_row = "'n scalars" +
  Converted_Coordinates :: 'c

record 'n vertex_row = "'n scalars" +
  Lat :: "'n option"
  Long :: "'n option"
  Google_Maps_Link :: "string option"
  Google_Maps_Link_Central_Point :: "string option"

text \<open>
  \<open>pd.DataFrame\<close> of the six lists: the lists must have one length, the rows are
  numbered from 0.
\<close>

definition frame_row_at :: "'n batch \<Rightarrow> nat \<Rightarrow> ('n, 'n point list option) frame_row" where
  "frame_row_at st i =
     \<lparr>idx = i, County = judet_list st ! i, Local_UAT = comuna_list st ! i,
      Cadastral_number = nr_carte_funciara_list st ! i,
      Central_Lat = central_lat_list st ! i, Central_Lon = central_lon_list st ! i,
      Converted_Coordinates = converted_coordinates_list st ! i\<rparr>"

definition data_frame :: "'n batch \<Rightarrow> py_error + ('n, 'n point list option) frame_row list" where
  "data_frame st =
     (let n = length (judet_list st) in
      if length (comuna_list st) = n \<and> length (nr_carte_funciara_list st) = n \<and>
         length (converted_coordinates_list st) = n \<and> length (central_lat_list st) = n \<and>
         length (central_lon_list st) = n
      then Inr (map (frame_row_at st) [0..<n])
      else Inl ValueError)"

text \<open>
  \<open>DataFrame.explode\<close>, as pandas documents it: a list-like cell gives one row per item,
  with the other columns and the index label repeated; a scalar cell (here \<open>None\<close>) is
  returned unchanged, and an empty list-like gives one row whose cell is \<open>NaN\<close>. So a
  row without coordinates stays one row, with a missing cell.
\<close>

definition with_cell :: "('n, 'c) frame_row \<Rightarrow> 'd \<Rightarrow> ('n, 'd) frame_row" where
  "with_cell r c =
     \<lparr>idx = idx r, County = County r, Local_UAT = Local_UAT r,
      Cadastral_number = Cadastral_number r, Central_Lat = Central_Lat r,
      Central_Lon = Central_Lon r, Converted_Coordinates = c\<rparr>"

fun explode_row ::
  "('n, 'n point list option) frame_row \<Rightarrow> ('n, 'n point option) frame_row list" where
  "explode_row r =
     (case Converted_Coordinates r of
        None \<Rightarrow> [with_cell r None]
      | Some [] \<Rightarrow> [with_cell r None]
      | Some (v # vs) \<Rightarrow> map (\<lambda>c. with_cell r (Some c)) (v # vs))"

definition explode ::
  "('n, 'n point list option) frame_row list \<Rightarrow> ('n, 'n point option) frame_row list" where
  "explode df = concat (map explode_row df)"

text \<open>
  \<open>pd.DataFrame(df_output['Converted_Coordinates'].tolist(), index=df_output.index)\<close>
  and its assignment to the two columns \<open>Lat\<close> and \<open>Long\<close>. pandas reads a list whose
  first item is a tuple as rows: a pair fills both columns, a missing item leaves both
  missing. A list that is empty or whose first item is missing gives a frame that has
  not two columns, and the assignment raises \<open>ValueError\<close>.
\<close>

definition split_lat_long ::
  "'n point option list \<Rightarrow> py_error + ('n option \<times> 'n option) list" where
  "split_lat_long cells =
     (case cells of
        [] \<Rightarrow> Inl ValueError
      | None # rest \<Rightarrow> Inl ValueError
      | Some p # rest \<Rightarrow>
          Inr (map (\<lambda>c. case c of None \<Rightarrow> (None, None) | Some (a, b) \<Rightarrow> (Some a, Some b)) cells))"

text \<open>
  \<open>astype(str)\<close> and the concatenation of a link. \<open>str_of x\<close> is the text of the number
  \<open>x\<close>. What \<open>astype(str)\<close> makes of a missing cell depends on the type pandas gave the
  column and on the version of pandas: a text (\<open>nan\<close>, or \<open>None\<close> in a column that holds
  no number), or a cell that is missing still. \<open>missing_text col cells\<close> is that outcome
  for the column \<open>col\<close> whose cells are \<open>cells\<close>; both are parameters. A link is
  missing when one of the two texts it is concatenated from is missing.
\<close>

definition render :: "('n \<Rightarrow> string) \<Rightarrow> string option \<Rightarrow> 'n option \<Rightarrow> string option" where
  "render str_of missing cell = (case cell of None \<Rightarrow> missing | Some x \<Rightarrow> Some (str_of x))"

definition link_text :: "string option \<Rightarrow> string option \<Rightarrow> string option" where
  "link_text a b =
     (case a of
        None \<Rightarrow> None
      | Some s \<Rightarrow>
          (case b of
             None \<Rightarrow> None
           | Some t \<Rightarrow> Some (''https://maps.google.com/?q='' @ s @ '','' @ t)))"

text \<open>
  One row of the output: the columns \<open>Lat\<close> and \<open>Long\<close> are added,
  \<open>Converted_Coordinates\<close> is dropped, the link of the vertex is built from \<open>Lat\<close> and
  \<open>Long\<close>, the link of the central point from \<open>Central_Lon\<close> and \<open>Central_Lat\<close>.
  \<open>m_lat\<close>, \<open>m_long\<close>, \<open>m_clon\<close> and \<open>m_clat\<close> are what a missing cell of the four
  columns becomes.
\<close>

definition output_row ::
  "('n \<Rightarrow> string) \<Rightarrow> string option \<Rightarrow> string option \<Rightarrow> string option \<Rightarrow> string option \<Rightarrow>
     ('n, 'c) frame_row \<Rightarrow> 'n option \<Rightarrow> 'n option \<Rightarrow> 'n vertex_row" where
  "output_row str_of m_lat m_long m_clon m_clat r lat long =
     \<lparr>idx = idx r, County = County r, Local_UAT = Local_UAT r,
      Cadastral_number = Cadastral_number r, Central_Lat = Central_Lat r,
      Central_Lon = Central_Lon r, Lat = lat, Long = long,
      Google_Maps_Link = link_text (render str_of m_lat lat) (render str_of m_long long),
      Google_Maps_Link_Central_Point =
        link_text (render str_of m_clon (Central_Lon r)) (render str_of m_clat (Central_Lat r))\<rparr>"

definition create_output_dataframe ::
  "('n \<Rightarrow> string) \<Rightarrow> (string \<Rightarrow> 'n option list \<Rightarrow> string option) \<Rightarrow>
     ('n, 'n point list option) frame_row list \<Rightarrow> py_error + 'n vertex_row list" where
  "create_output_dataframe str_of missing_text df =
     (let df_output = explode df in
      case split_lat_long (map Converted_Coordinates df_output) of
        Inl e \<Rightarrow> Inl e
      | Inr lat_long \<Rightarrow>
          (let m_lat = missing_text ''Lat'' (map fst lat_long);
               m_long = missing_text ''Long'' (map snd lat_long);
               m_clon = missing_text ''Central_Lon'' (map Central_Lon df_output);
               m_clat = missing_text ''Central_Lat'' (map Central_Lat df_output)
           in Inr (map (\<lambda>(r, lat, long). output_row str_of m_lat m_long m_clon m_clat r lat long)
                     (zip df_output lat_long))))"

text \<open>The Processing Data button: the loop from the empty lists, then the output frame.\<close>

definition processing_data ::
  "'n arith \<Rightarrow> ('n \<Rightarrow> 'n \<Rightarrow> 'n point) \<Rightarrow> (string \<Rightarrow> py_error + 'n response) \<Rightarrow>
     ('n \<Rightarrow> string) \<Rightarrow> (string \<Rightarrow> 'n option list \<Rightarrow> string option) \<Rightarrow>
     lookup_request list \<Rightarrow> py_error + 'n vertex_row list" where
  "processing_data A tr requests_get str_of missing_text df =
     (case process_rows A tr requests_get empty_batch df of
        Inl e \<Rightarrow> Inl e
      | Inr st \<Rightarrow>
          (case data_frame st of
             Inl e \<Rightarrow> Inl e
           | Inr frame \<Rightarrow> create_output_dataframe str_of missing_text frame))"

section \<open>Auxiliary notions for the statements\<close>

text \<open>
  The data of a row of the output, that is the row without its two link texts, which are
  derived from the other columns: \<open>without_links\<close> blanks them, \<open>data_row\<close> is the row
  of a record for one pair of \<open>Lat\<close> and \<open>Long\<close>. \<open>record_rows r\<close> is the data that the
  record \<open>r\<close> of a frame contributes when the frame is projected without an error: one
  row per kept vertex, or one row with missing \<open>Lat\<close> and \<open>Long\<close> when the record has no
  vertex. \<open>rows_at i rows\<close> is the data of the rows with the index label \<open>i\<close>, the rows
  of the record number \<open>i\<close>.
\<close>

definition without_links :: "'n vertex_row \<Rightarrow> 'n vertex_row" where
  "without_links row = row\<lparr>Google_Maps_Link := None, Google_Maps_Link_Central_Point := None\<rparr>"

definition data_row :: "('n, 'c) frame_row \<Rightarrow> 'n option \<Rightarrow> 'n option \<Rightarrow> 'n vertex_row" where
  "data_row r lat long =
     \<lparr>idx = idx r, County = County r, Local_UAT = Local_UAT r,
      Cadastral_number = Cadastral_number r, Central_Lat = Central_Lat r,
      Central_Lon = Central_Lon r, Lat = lat, Long = long,
      Google_Maps_Link = None, Google_Maps_Link_Central_Point = None\<rparr>"

definition record_rows :: "('n, 'n point list option) frame_row \<Rightarrow> 'n vertex_row list" where
  "record_rows r =
     (case Converted_Coordinates r of
        None \<Rightarrow> [data_row r None None]
      | Some [] \<Rightarrow> [data_row r None None]
      | Some (v # vs) \<Rightarrow> map (\<lambda>(a, b). data_row r (Some a) (Some b)) (v # vs))"

definition rows_at :: "nat \<Rightarrow> 'n vertex_row list \<Rightarrow> 'n vertex_row list" where
  "rows_at i rows = map without_links (filter (\<lambda>row. idx row = i) rows)"



text \<open>\<open>batch_length st n\<close>: each of the six lists of the batch has \<open>n\<close> entries.\<close>

definition batch_length :: "'n batch \<Rightarrow> nat \<Rightarrow> bool" where
  "batch_length st n \<longleftrightarrow>
     length (converted_coordinates_list st) = n \<and> length (central_lat_list st) = n \<and>
     length (central_lon_list st) = n \<and> length (judet_list st) = n \<and>
     length (comuna_list st) = n \<and> length (nr_carte_funciara_list st) = n"

section \<open>Example data\<close>

text \<open>
  A small service for the concrete runs below: \<open>square\<close> and \<open>edge\<close> are two parcels,
  the second lying on a side of the first; \<open>diagonal\<close> and \<open>corner\<close> are two vertex
  lists, the second being one end of the first; \<open>missing\<close> answers with status 404,
  \<open>garbled\<close> with status 200 and a body that is not JSON, \<open>nothing\<close> with status 200
  and no feature, \<open>bare\<close> with status 200 and a feature without geometry. The transformer of the examples is \<open>Pair\<close>, which returns \<open>(x, y)\<close>
  as it is.
\<close>

definition example_record :: "string \<Rightarrow> lookup_request" where
  "example_record link =
     \<lparr>Judet = ''Arges'', Judet_ID = 36, Comuna = ''Ungheni'', Comuna_ID = 19560,
      Numar_Carte_Funciara = 12476, Link = link\<rparr>"

definition square :: "real json_data" where
  "square = JDict [] (Some [Feature (Some (Geometry (Some [[(0, 0), (2, 0), (2, 2), (0, 2)]])))])"

definition edge :: "real json_data" where
  "edge = JDict [] (Some [Feature (Some (Geometry (Some [[(2, 0), (2, 2)]])))])"

definition diagonal :: "real json_data" where
  "diagonal = JDict [] (Some [Feature (Some (Geometry (Some [[(0, 0), (2, 2)]])))])"

definition corner :: "real json_data" where
  "corner = JDict [] (Some [Feature (Some (Geometry (Some [[(2, 2)]])))])"

definition example_requests_get :: "string \<Rightarrow> py_error + real response" where
  "example_requests_get url =
     (if url = ''square'' then Inr \<lparr>status_code = 200, body = Some square\<rparr>
      else if url = ''edge'' then Inr \<lparr>status_code = 200, body = Some edge\<rparr>
      else if url = ''diagonal'' then Inr \<lparr>status_code = 200, body = Some diagonal\<rparr>
      else if url = ''corner'' then Inr \<lparr>status_code = 200, body = Some corner\<rparr>
      else if url = ''missing'' then Inr \<lparr>status_code = 404, body = None\<rparr>
      else if url = ''garbled'' then Inr \<lparr>status_code = 200, body = None\<rparr>
      else if url = ''nothing'' then Inr \<lparr>status_code = 200, body = Some (JDict [] (Some []))\<rparr>
      else if url = ''bare'' then
        Inr \<lparr>status_code = 200, body = Some (JDict [] (Some [Feature None]))\<rparr>
      else Inl RequestException)"

text \<open>
  A rendering for the examples: a missing cell becomes \<open>None\<close> in a column that holds no
  number and \<open>nan\<close> in a column that holds one.
\<close>

definition example_str :: "real \<Rightarrow> string" where
  "example_str x = (if x = 0 then ''0.0'' else if x = 1 then ''1.0'' else if x = 2 then ''2.0'' else ''?'')"

definition example_missing :: "string \<Rightarrow> real option list \<Rightarrow> string option" where
  "example_missing col cells = (if list_all (\<lambda>c. c = None) cells then Some ''None'' else Some ''nan'')"


section \<open>Properties of convert_coordinates\<close>

lemma sum_loop_foldl: "sum_loop A acc xs = foldl (add_of A) acc xs"
  by (induction xs arbitrary: acc) simp_all

lemma py_sum_foldl: "py_sum A xs = foldl (add_of A) (zero_of A) xs"
  by (simp add: py_sum_def sum_loop_foldl)

lemma arithmetic_mean_py:
  "xs \<noteq> [] \<Longrightarrow> arithmetic_mean A xs = Some (div_of A (py_sum A xs) (length xs))"
  by (simp add: arithmetic_mean_def py_sum_foldl)

lemma foldl_add_sum_list: "foldl (+) (a::real) xs = a + sum_list xs"
  by (induction xs arbitrary: a) simp_all

text \<open>Without rounding, the mean above is the sum of the values over their number.\<close>

lemma arithmetic_mean_exact:
  "xs \<noteq> [] \<Longrightarrow> arithmetic_mean exact_arith xs = Some (sum_list xs / real (length xs))"
  by (simp add: arithmetic_mean_def exact_arith_def foldl_add_sum_list)

lemma extend_rings_concat:
  "extend_rings tr acc rs = acc @ concat (map (map (\<lambda>(x, y). tr x y)) rs)"
  by (induction rs arbitrary: acc) simp_all

lemma convert_coordinates_present:
  "convert_coordinates A tr (JDict ks (Some (Feature (Some (Geometry (Some rs))) # fs))) =
     (let vs = concat (map (map (\<lambda>(x, y). tr x y)) rs) in
      if vs = [] then Inl ZeroDivisionError
      else Inr (Some vs,
                Some (div_of A (py_sum A (map fst vs)) (length vs)),
                Some (div_of A (py_sum A (map snd vs)) (length vs))))"
  by (simp add: convert_coordinates_def extend_rings_concat py_div_def Let_def)

lemma convert_coordinates_nonempty:
  assumes "vs = concat (map (map (\<lambda>(x, y). tr x y)) rs)" and "vs \<noteq> []"
  shows "convert_coordinates A tr (JDict ks (Some (Feature (Some (Geometry (Some rs))) # fs))) =
           Inr (Some vs, Some (div_of A (py_sum A (map fst vs)) (length vs)),
                Some (div_of A (py_sum A (map snd vs)) (length vs)))"
  unfolding convert_coordinates_present Let_def assms(1) [symmetric]
  using assms(2) by (rule if_not_P)

lemma converted_length:
  "length (concat (map (map (\<lambda>(x, y). tr x y)) rs)) = sum_list (map length rs)"
  by (simp add: length_concat comp_def)

lemma convert_coordinates_truthy_result:
  assumes "truthy json_data"
    and "convert_coordinates A tr json_data = Inr (cc, central_lat, central_lon)"
  shows "\<exists>vs a b. cc = Some vs \<and> central_lat = Some a \<and> central_lon = Some b \<and>
           arithmetic_mean A (map fst vs) = Some a \<and> arithmetic_mean A (map snd vs) = Some b"
  using assms
  by (auto simp add: convert_coordinates_def py_div_def Let_def arithmetic_mean_def py_sum_foldl
      split: sum.splits if_splits)

text \<open>
  Claim C1. For an absent input (\<open>None\<close> or the empty dict) \<open>convert_coordinates\<close>
  returns \<open>(None, None, None)\<close>. For a geometry that is present and whose rings hold no
  point at all (no ring, or empty rings only) it does not return the triple of \<open>None\<close>:
  the division by the number of vertices is reached with the count zero and raises
  \<open>ZeroDivisionError\<close>, where the docstring of the function promises three \<open>None\<close>
  values for empty or invalid data.
\<close>

theorem convert_coordinates_zero_points_raises:
  "convert_coordinates A tr JNull = Inr (None, None, None) \<and>
   convert_coordinates A tr (JDict [] None) = Inr (None, None, None) \<and>
   (sum_list (map length rs) = 0 \<longrightarrow>
      convert_coordinates A tr (JDict ks (Some (Feature (Some (Geometry (Some rs))) # fs))) =
        Inl ZeroDivisionError)"
proof -
  have absent: "convert_coordinates A tr JNull = Inr (None, None, None)"
    "convert_coordinates A tr (JDict [] None) = Inr (None, None, None)"
    by (simp_all add: convert_coordinates_def)
  have "convert_coordinates A tr (JDict ks (Some (Feature (Some (Geometry (Some rs))) # fs))) =
      Inl ZeroDivisionError"
    if "sum_list (map length rs) = 0"
  proof -
    have "length (concat (map (map (\<lambda>(x, y). tr x y)) rs)) = 0"
      unfolding converted_length by (rule that)
    then have "concat (map (map (\<lambda>(x, y). tr x y)) rs) = []"
      by (simp only: length_0_conv)
    then show ?thesis
      by (simp add: convert_coordinates_present Let_def del: concat_eq_Nil_conv)
  qed
  with absent show ?thesis
    by blast
qed

theorem convert_coordinates_zero_points_raises_witness:
  "sum_list (map length ([[], []] :: real ring list)) = 0 \<and>
   convert_coordinates exact_arith Pair
     (JDict [] (Some [Feature (Some (Geometry (Some [[], []])))])) = Inl ZeroDivisionError \<and>
   convert_coordinates exact_arith Pair
     (JDict [] (Some [Feature (Some (Geometry (Some [])))])) = Inl ZeroDivisionError"
proof -
  have two: "sum_list (map length ([[], []] :: real ring list)) = 0"
    by simp
  have none: "sum_list (map length ([] :: real ring list)) = 0"
    by simp
  from convert_coordinates_zero_points_raises [of exact_arith Pair "[[], []]" "[]" "[]"] two
  have "convert_coordinates exact_arith Pair
     (JDict [] (Some [Feature (Some (Geometry (Some [[], []])))])) = Inl ZeroDivisionError"
    by blast
  moreover from convert_coordinates_zero_points_raises [of exact_arith Pair "[]" "[]" "[]"] none
  have "convert_coordinates exact_arith Pair
     (JDict [] (Some [Feature (Some (Geometry (Some [])))])) = Inl ZeroDivisionError"
    by blast
  ultimately show ?thesis
    using two by blast
qed

text \<open>
  Claim C3. For a geometry with at least one point in its rings, \<open>convert_coordinates\<close>
  returns the converted points of all rings, concatenated in the order of the rings, so
  that their number is the sum of the numbers of points of the rings; \<open>central_lat\<close> is
  the arithmetic mean of the first components of the returned vertices and
  \<open>central_lon\<close> the arithmetic mean of their second components, each axis on its own.
\<close>

theorem convert_coordinates_vertices_centroid:
  assumes "0 < sum_list (map length rs)"
  shows "\<exists>vs central_lat central_lon.
           convert_coordinates A tr (JDict ks (Some (Feature (Some (Geometry (Some rs))) # fs))) =
             Inr (Some vs, Some central_lat, Some central_lon) \<and>
           vs = concat (map (map (\<lambda>(x, y). tr x y)) rs) \<and>
           length vs = sum_list (map length rs) \<and>
           arithmetic_mean A (map fst vs) = Some central_lat \<and>
           arithmetic_mean A (map snd vs) = Some central_lon"
proof -
  define vs where "vs = concat (map (map (\<lambda>(x, y). tr x y)) rs)"
  have len: "length vs = sum_list (map length rs)"
    by (simp only: vs_def converted_length)
  have "0 < length vs"
    unfolding len by (rule assms)
  then have ne: "vs \<noteq> []"
    by simp
  have "arithmetic_mean A (map fst vs) = Some (div_of A (py_sum A (map fst vs)) (length vs))"
    using ne by (simp add: arithmetic_mean_py)
  moreover have "arithmetic_mean A (map snd vs) = Some (div_of A (py_sum A (map snd vs)) (length vs))"
    using ne by (simp add: arithmetic_mean_py)
  ultimately show ?thesis
    using convert_coordinates_nonempty [OF vs_def ne, of A ks fs] len vs_def by blast
qed

theorem convert_coordinates_vertices_centroid_witness:
  "0 < sum_list (map length [[(0, 0), (2, 0)], [(2, 2), (0, 2 :: real)]]) \<and>
   convert_coordinates exact_arith Pair
     (JDict [] (Some [Feature (Some (Geometry (Some [[(0, 0), (2, 0)], [(2, 2), (0, 2)]])))])) =
     Inr (Some [(0, 0), (2, 0), (2, 2), (0, 2)], Some 1, Some 1)"
proof -
  have points: "0 < sum_list (map length [[(0, 0), (2, 0)], [(2, 2), (0, 2 :: real)]])"
    by simp
  from convert_coordinates_vertices_centroid [OF points, of exact_arith Pair "[]" "[]"]
  show ?thesis
    by (auto simp add: arithmetic_mean_def exact_arith_def)
qed

section \<open>Properties of the deduplicating collector\<close>

lemma accumulate_fst: "fst (accumulate vs seen) = filter (\<lambda>c. c \<notin> seen) vs"
  by (simp add: accumulate_def)

lemma accumulate_empty: "accumulate vs {} = (vs, set vs)"
  by (simp add: accumulate_def)

lemma length_filter_neq:
  "distinct xs \<Longrightarrow>
     length (filter (\<lambda>c. c \<noteq> p) xs) = (if p \<in> set xs then length xs - 1 else length xs)"
proof (induction xs)
  case Nil
  show ?case by simp
next
  case (Cons x xs)
  then show ?case
    by (cases xs) auto
qed


section \<open>The invariant of the record store\<close>

lemma append_missing_distinct:
  "distinct recorduri \<Longrightarrow> distinct (append_missing recorduri rs)"
  by (induction rs arbitrary: recorduri) auto

lemma delete_record_distinct:
  assumes d: "distinct rs" and del: "delete_record i rs = Inr rs'"
  shows "distinct rs'"
proof -
  from del have rs': "rs' = take i rs @ drop (Suc i) rs"
    by (auto simp add: delete_record_def split: if_splits)
  have "distinct (take i rs @ drop i rs)"
    using d by simp
  then have disj: "set (take i rs) \<inter> set (drop i rs) = {}"
    by (simp only: distinct_append)
  have "set (drop (Suc i) rs) \<subseteq> set (drop i rs)"
    by (rule set_drop_subset_set_drop) simp
  with disj have "set (take i rs) \<inter> set (drop (Suc i) rs) = {}"
    by blast
  then have "distinct (take i rs @ drop (Suc i) rs)"
    using d by (simp only: distinct_append distinct_take distinct_drop simp_thms)
  then show ?thesis by (simp add: rs')
qed

text \<open>
  Claim C9. The record store never holds two equal requests: the Add button and the Add
  Dummy Data button append a record only when no equal record is in the list, and a
  deletion removes one entry. Every state of the store that the buttons can produce from
  the start has pairwise different entries.
\<close>

theorem record_store_no_duplicates:
  assumes "reachable s"
  shows "case s of None \<Rightarrow> True | Some rs \<Rightarrow> distinct rs"
  using assms
proof (induction rule: reachable.induct)
  case start
  show ?case by simp
next
  case (add s r)
  then show ?case
    by (auto simp add: add_button_def Let_def split: option.splits)
next
  case (dummy s)
  then show ?case
    by (auto simp add: add_dummy_data_def intro: append_missing_distinct split: option.splits)
next
  case (delete rs i rs')
  then show ?case
    by (auto dest: delete_record_distinct)
qed

theorem record_store_no_duplicates_witness:
  "reachable (add_dummy_data (add_dummy_data None)) \<and>
   add_dummy_data (add_dummy_data None) = Some dummy_records \<and>
   distinct dummy_records"
proof -
  have r: "reachable (add_dummy_data (add_dummy_data None))"
    by (intro reachable.dummy reachable.start)
  have twice: "add_dummy_data (add_dummy_data None) = Some dummy_records"
    by (simp add: add_dummy_data_def dummy_records_def)
  from record_store_no_duplicates [OF r] have "distinct dummy_records"
    unfolding twice by simp
  with r twice show ?thesis
    by simp
qed

section \<open>Properties of the processing loop\<close>

lemma match_href_nonempty: "match_href s = Some url \<Longrightarrow> url \<noteq> []"
  by (auto simp add: match_href_def Let_def split: if_splits)

lemma re_search_href_nonempty: "re_search_href s = Some url \<Longrightarrow> url \<noteq> []"
  by (induction s) (auto split: option.splits dest: match_href_nonempty)

lemma extract_url_nonempty: "extract_url_from_html html = Some url \<Longrightarrow> url \<noteq> []"
  by (simp add: extract_url_from_html_def re_search_href_nonempty)

text \<open>The anchor built for the frame gives back the link it was built from.\<close>

lemma extract_url_request_link:
  assumes "url \<noteq> []" and "dq \<notin> set url"
  shows "extract_url_from_html (request_link url) = Some url"
proof -
  have tw: "takeWhile (\<lambda>c. c \<noteq> dq) (url @ dq # rest) = url" for rest
    using assms(2) by (induction url) auto
  have dw: "dropWhile (\<lambda>c. c \<noteq> dq) (url @ dq # rest) = dq # rest" for rest
    using assms(2) by (induction url) auto
  have "match_href (''href='' @ [dq] @ url @ dq # rest) = Some url" for rest
    using assms(1) by (simp add: match_href_def tw dw)
  then show ?thesis
    by (simp add: extract_url_from_html_def request_link_def match_href_def dq_def)
qed


lemma process_row_no_data:
  assumes "extract_url_from_html (Link row) = Some url"
    and "fetch_json requests_get url = Inr json_data"
    and "\<not> truthy json_data"
  shows "process_row A tr requests_get st row = Inr (append_none st)"
  using assms by (simp add: process_row_def)

lemma process_row_data:
  assumes "extract_url_from_html (Link row) = Some url"
    and "fetch_json requests_get url = Inr json_data"
    and "truthy json_data"
    and "convert_coordinates A tr json_data = Inr (Some vs, central_lat, central_lon)"
  shows "process_row A tr requests_get st row =
           Inr \<lparr>converted_coordinates_list =
                  converted_coordinates_list st @ [Some (fst (accumulate vs (unique_coordinates st)))],
                central_lat_list = central_lat_list st @ [central_lat],
                central_lon_list = central_lon_list st @ [central_lon],
                judet_list = judet_list st @ [Some (Judet row)],
                comuna_list = comuna_list st @ [Some (Comuna row)],
                nr_carte_funciara_list =
                  nr_carte_funciara_list st @ [Some (Numar_Carte_Funciara row)],
                unique_coordinates = snd (accumulate vs (unique_coordinates st))\<rparr>"
  using assms extract_url_nonempty [OF assms(1)]
  by (simp add: process_row_def split: prod.splits)



lemma process_row_extends:
  assumes "process_row A tr requests_get st row = Inr st'"
  shows "\<exists>a b c d e f.
           converted_coordinates_list st' = converted_coordinates_list st @ [a] \<and>
           central_lat_list st' = central_lat_list st @ [b] \<and>
           central_lon_list st' = central_lon_list st @ [c] \<and>
           judet_list st' = judet_list st @ [d] \<and>
           comuna_list st' = comuna_list st @ [e] \<and>
           nr_carte_funciara_list st' = nr_carte_funciara_list st @ [f]"
  using assms
  by (auto simp add: process_row_def append_none_def
      split: option.splits if_splits sum.splits prod.splits)

lemma process_row_batch_length:
  assumes "process_row A tr requests_get st row = Inr st'" and "batch_length st n"
  shows "batch_length st' (Suc n)"
  using process_row_extends [OF assms(1)] assms(2)
  by (auto simp add: batch_length_def)

lemma process_rows_batch_length:
  "process_rows A tr requests_get st rows = Inr st' \<Longrightarrow> batch_length st n \<Longrightarrow>
     batch_length st' (n + length rows)"
proof (induction rows arbitrary: st n)
  case Nil
  then show ?case by simp
next
  case (Cons row rows)
  from Cons.prems(1) obtain st1 where
    step: "process_row A tr requests_get st row = Inr st1" and
    rest: "process_rows A tr requests_get st1 rows = Inr st'"
    by (auto split: sum.splits)
  from process_row_batch_length [OF step Cons.prems(2)] have "batch_length st1 (Suc n)" .
  from Cons.IH [OF rest this] show ?case by simp
qed

lemma process_rows_append:
  "process_rows A tr requests_get st (rows1 @ rows2) =
     (case process_rows A tr requests_get st rows1 of
        Inl e \<Rightarrow> Inl e
      | Inr st1 \<Rightarrow> process_rows A tr requests_get st1 rows2)"
  by (induction rows1 arbitrary: st) (simp_all split: sum.splits)

lemma batch_length_empty: "batch_length empty_batch 0"
  by (simp add: batch_length_def empty_batch_def)

lemma process_rows_keeps_entries:
  "process_rows A tr requests_get st rows = Inr st' \<Longrightarrow>
     (\<exists>xs. converted_coordinates_list st' = converted_coordinates_list st @ xs) \<and>
     (\<exists>ys. central_lat_list st' = central_lat_list st @ ys) \<and>
     (\<exists>zs. central_lon_list st' = central_lon_list st @ zs)"
proof (induction rows arbitrary: st)
  case Nil
  then show ?case by simp
next
  case (Cons row rows)
  from Cons.prems obtain st1 where
    step: "process_row A tr requests_get st row = Inr st1" and
    rest: "process_rows A tr requests_get st1 rows = Inr st'"
    by (auto split: sum.splits)
  from process_row_extends [OF step] Cons.IH [OF rest] show ?case
    by auto
qed

subsection \<open>The example service\<close>

lemma example_urls:
  "extract_url_from_html (Link (example_record (request_link ''square''))) = Some ''square''"
  "extract_url_from_html (Link (example_record (request_link ''edge''))) = Some ''edge''"
  "extract_url_from_html (Link (example_record (request_link ''missing''))) = Some ''missing''"
  "extract_url_from_html (Link (example_record (request_link ''garbled''))) = Some ''garbled''"
  "extract_url_from_html (Link (example_record (request_link ''nothing''))) = Some ''nothing''"
  by (simp_all add: example_record_def extract_url_request_link dq_def)

lemma example_fetches:
  "fetch_json example_requests_get ''square'' = Inr square"
  "fetch_json example_requests_get ''edge'' = Inr edge"
  "fetch_json example_requests_get ''missing'' = Inr JNull"
  "fetch_json example_requests_get ''garbled'' = Inl JSONDecodeError"
  "fetch_json example_requests_get ''nothing'' = Inr (JDict [] (Some []))"
  by (simp_all add: fetch_json_def example_requests_get_def response_json_def)

lemma example_conversions:
  "convert_coordinates exact_arith Pair square =
     Inr (Some [(0, 0), (2, 0), (2, 2), (0, 2)], Some 1, Some 1)"
  "convert_coordinates exact_arith Pair edge = Inr (Some [(2, 0), (2, 2)], Some 2, Some 1)"
  "convert_coordinates exact_arith Pair (JDict [] (Some [])) = Inl IndexError"
  by (simp_all add: convert_coordinates_def square_def edge_def py_div_def py_sum_def
      exact_arith_def)

lemma example_truthy:
  "truthy square" "truthy edge" "truthy (JDict [] (Some []))"
  by (simp_all add: square_def edge_def)

lemma example_square_row:
  "process_row exact_arith Pair example_requests_get st (example_record (request_link ''square'')) =
     Inr \<lparr>converted_coordinates_list = converted_coordinates_list st @
            [Some (fst (accumulate [(0, 0), (2, 0), (2, 2), (0, 2)] (unique_coordinates st)))],
          central_lat_list = central_lat_list st @ [Some 1],
          central_lon_list = central_lon_list st @ [Some 1],
          judet_list = judet_list st @ [Some ''Arges''],
          comuna_list = comuna_list st @ [Some ''Ungheni''],
          nr_carte_funciara_list = nr_carte_funciara_list st @ [Some 12476],
          unique_coordinates =
            snd (accumulate [(0, 0), (2, 0), (2, 2), (0, 2)] (unique_coordinates st))\<rparr>"
  unfolding process_row_data [OF example_urls(1) example_fetches(1) example_truthy(1)
      example_conversions(1)]
  by (simp add: example_record_def)

lemma example_edge_row:
  "process_row exact_arith Pair example_requests_get st (example_record (request_link ''edge'')) =
     Inr \<lparr>converted_coordinates_list = converted_coordinates_list st @
            [Some (fst (accumulate [(2, 0), (2, 2)] (unique_coordinates st)))],
          central_lat_list = central_lat_list st @ [Some 2],
          central_lon_list = central_lon_list st @ [Some 1],
          judet_list = judet_list st @ [Some ''Arges''],
          comuna_list = comuna_list st @ [Some ''Ungheni''],
          nr_carte_funciara_list = nr_carte_funciara_list st @ [Some 12476],
          unique_coordinates = snd (accumulate [(2, 0), (2, 2)] (unique_coordinates st))\<rparr>"
  unfolding process_row_data [OF example_urls(2) example_fetches(2) example_truthy(2)
      example_conversions(2)]
  by (simp add: example_record_def)

lemma example_missing_row:
  "process_row exact_arith Pair example_requests_get st (example_record (request_link ''missing'')) =
     Inr (append_none st)"
  by (rule process_row_no_data [OF example_urls(3) example_fetches(3)]) simp

lemma example_run:
  "process_rows exact_arith Pair example_requests_get empty_batch
     [example_record (request_link ''square''), example_record (request_link ''edge'')] =
   Inr \<lparr>converted_coordinates_list = [Some [(0, 0), (2, 0), (2, 2), (0, 2)], Some []],
        central_lat_list = [Some 1, Some 2], central_lon_list = [Some 1, Some 1],
        judet_list = [Some ''Arges'', Some ''Arges''],
        comuna_list = [Some ''Ungheni'', Some ''Ungheni''],
        nr_carte_funciara_list = [Some 12476, Some 12476],
        unique_coordinates = {(0, 0), (2, 0), (2, 2), (0, 2)}\<rparr>"
  unfolding process_rows.simps example_square_row sum.case example_edge_row
  by (simp add: empty_batch_def accumulate_def)

lemma example_run_missing:
  "process_rows exact_arith Pair example_requests_get empty_batch
     [example_record (request_link ''square''), example_record (request_link ''missing''),
      example_record (request_link ''edge'')] =
   Inr \<lparr>converted_coordinates_list = [Some [(0, 0), (2, 0), (2, 2), (0, 2)], None, Some []],
        central_lat_list = [Some 1, None, Some 2], central_lon_list = [Some 1, None, Some 1],
        judet_list = [Some ''Arges'', None, Some ''Arges''],
        comuna_list = [Some ''Ungheni'', None, Some ''Ungheni''],
        nr_carte_funciara_list = [Some 12476, None, Some 12476],
        unique_coordinates = {(0, 0), (2, 0), (2, 2), (0, 2)}\<rparr>"
  unfolding process_rows.simps example_square_row sum.case example_missing_row example_edge_row
  by (simp add: empty_batch_def accumulate_def append_none_def)

text \<open>
  Claim C6. The centroid of a record is computed by \<open>convert_coordinates\<close> from the whole
  converted vertex sequence of the record, before the collector filters it, and the
  filter does not change it: after any batch, the entries of \<open>central_lat_list\<close> and
  \<open>central_lon_list\<close> of a record with data are the means over all of its vertices,
  while the entry of \<open>converted_coordinates_list\<close> is only a subsequence of them.
\<close>

theorem centroid_unaffected_by_dedup:
  assumes run: "process_rows A tr requests_get empty_batch rows = Inr st"
    and i: "i < length rows"
    and url: "extract_url_from_html (Link (rows ! i)) = Some url"
    and fetched: "fetch_json requests_get url = Inr json_data"
    and present: "truthy json_data"
  shows "\<exists>vs central_lat central_lon kept.
           convert_coordinates A tr json_data = Inr (Some vs, Some central_lat, Some central_lon) \<and>
           arithmetic_mean A (map fst vs) = Some central_lat \<and>
           arithmetic_mean A (map snd vs) = Some central_lon \<and>
           central_lat_list st ! i = Some central_lat \<and>
           central_lon_list st ! i = Some central_lon \<and>
           converted_coordinates_list st ! i = Some kept \<and> subseq kept vs"
proof -
  have split: "rows = take i rows @ (rows ! i) # drop (Suc i) rows"
    using i by (simp add: id_take_nth_drop)
  from run obtain st1 st2 where
    before: "process_rows A tr requests_get empty_batch (take i rows) = Inr st1" and
    step: "process_row A tr requests_get st1 (rows ! i) = Inr st2" and
    after: "process_rows A tr requests_get st2 (drop (Suc i) rows) = Inr st"
    by (subst (asm) split) (auto simp add: process_rows_append split: sum.splits)
  have len1: "batch_length st1 i"
    using process_rows_batch_length [OF before batch_length_empty] i by simp
  from step obtain cc clat clon where
    conv: "convert_coordinates A tr json_data = Inr (cc, clat, clon)"
    using url fetched present extract_url_nonempty [OF url]
    by (auto simp add: process_row_def split: sum.splits)
  from convert_coordinates_truthy_result [OF present conv] obtain vs a b where
    cc: "cc = Some vs" and clat: "clat = Some a" and clon: "clon = Some b" and
    mean_a: "arithmetic_mean A (map fst vs) = Some a" and
    mean_b: "arithmetic_mean A (map snd vs) = Some b"
    by blast
  define kept where "kept = fst (accumulate vs (unique_coordinates st1))"
  have st2: "converted_coordinates_list st2 = converted_coordinates_list st1 @ [Some kept]"
    "central_lat_list st2 = central_lat_list st1 @ [Some a]"
    "central_lon_list st2 = central_lon_list st1 @ [Some b]"
    using step process_row_data [OF url fetched present conv [unfolded cc clat clon], of st1]
    by (auto simp add: kept_def)
  from process_rows_keeps_entries [OF after] obtain xs ys zs where
    "converted_coordinates_list st = converted_coordinates_list st2 @ xs"
    "central_lat_list st = central_lat_list st2 @ ys"
    "central_lon_list st = central_lon_list st2 @ zs"
    by blast
  with st2 len1 have at_i: "converted_coordinates_list st ! i = Some kept"
    "central_lat_list st ! i = Some a" "central_lon_list st ! i = Some b"
    by (simp_all add: batch_length_def nth_append)
  have "subseq kept vs"
    by (simp add: kept_def accumulate_fst)
  with conv cc clat clon mean_a mean_b at_i show ?thesis
    by blast
qed

text \<open>
  In the example the second parcel shares both of its vertices with the first: its kept
  list is empty, its centroid is still the mean of its two vertices.
\<close>

theorem centroid_unaffected_by_dedup_witness:
  "process_rows exact_arith Pair example_requests_get empty_batch
     [example_record (request_link ''square''), example_record (request_link ''edge'')] =
   Inr \<lparr>converted_coordinates_list = [Some [(0, 0), (2, 0), (2, 2), (0, 2)], Some []],
        central_lat_list = [Some 1, Some 2], central_lon_list = [Some 1, Some 1],
        judet_list = [Some ''Arges'', Some ''Arges''],
        comuna_list = [Some ''Ungheni'', Some ''Ungheni''],
        nr_carte_funciara_list = [Some 12476, Some 12476],
        unique_coordinates = {(0, 0), (2, 0), (2, 2), (0, 2)}\<rparr> \<and>
   convert_coordinates exact_arith Pair edge = Inr (Some [(2, 0), (2, 2)], Some 2, Some 1)"
proof -
  let ?rows = "[example_record (request_link ''square''), example_record (request_link ''edge'')]"
  have i: "1 < length ?rows"
    by simp
  have url: "extract_url_from_html (Link (?rows ! 1)) = Some ''edge''"
    by (simp add: example_urls)
  from centroid_unaffected_by_dedup [OF example_run i url example_fetches(2) example_truthy(2)]
  have "convert_coordinates exact_arith Pair edge = Inr (Some [(2, 0), (2, 2)], Some 2, Some 1)"
    by (auto simp add: example_conversions)
  with example_run show ?thesis
    by (rule conjI)
qed






section \<open>Properties of create_output_dataframe\<close>

lemma zip_map_same: "zip xs (map h xs) = map (\<lambda>x. (x, h x)) xs"
  by (induction xs) simp_all

lemma without_links_output_row:
  "without_links (output_row str_of m_lat m_long m_clon m_clat r lat long) = data_row r lat long"
  by (simp add: without_links_def output_row_def data_row_def)

lemma record_rows_explode_row:
  "map (\<lambda>r'. case Converted_Coordinates r' of
                None \<Rightarrow> data_row r' None None
              | Some (a, b) \<Rightarrow> data_row r' (Some a) (Some b)) (explode_row r) =
   record_rows r"
  by (auto simp add: record_rows_def with_cell_def data_row_def split: option.splits list.splits)

text \<open>
  A frame whose first record has a kept vertex is projected without an error, and the
  data of the output is the data of its records, one record after the other.
\<close>

lemma create_output_dataframe_data:
  assumes "Converted_Coordinates r0 = Some (v # vs)"
  shows "\<exists>rows. create_output_dataframe str_of missing_text (r0 # df) = Inr rows \<and>
           map without_links rows = concat (map record_rows (r0 # df))"
proof -
  define split_cell :: "'a point option \<Rightarrow> 'a option \<times> 'a option" where
    "split_cell = (\<lambda>c. case c of None \<Rightarrow> (None, None) | Some (a, b) \<Rightarrow> (Some a, Some b))"
  define E where "E = explode (r0 # df)"
  define lat_long where "lat_long = map split_cell (map Converted_Coordinates E)"
  define rows where "rows =
     map (\<lambda>(r, lat, long).
            output_row str_of (missing_text ''Lat'' (map fst lat_long))
              (missing_text ''Long'' (map snd lat_long))
              (missing_text ''Central_Lon'' (map Central_Lon E))
              (missing_text ''Central_Lat'' (map Central_Lat E)) r lat long)
         (zip E lat_long)"
  have first: "\<exists>rest. map Converted_Coordinates E = Some v # rest"
    using assms by (simp add: E_def explode_def with_cell_def)
  then have split: "split_lat_long (map Converted_Coordinates E) = Inr lat_long"
    by (auto simp add: split_lat_long_def split_cell_def lat_long_def)
  have out: "create_output_dataframe str_of missing_text (r0 # df) = Inr rows"
    by (simp add: create_output_dataframe_def E_def [symmetric] split Let_def rows_def)
  have "map without_links rows =
          map (\<lambda>(r, lat, long). data_row r lat long) (zip E lat_long)"
    by (simp add: rows_def without_links_output_row split_def)
  also have "\<dots> = map (\<lambda>r'. case Converted_Coordinates r' of
                None \<Rightarrow> data_row r' None None
              | Some (a, b) \<Rightarrow> data_row r' (Some a) (Some b)) E"
    by (auto simp add: lat_long_def zip_map_same split_cell_def comp_def split: option.splits)
  also have "\<dots> = concat (map record_rows (r0 # df))"
    unfolding E_def explode_def map_concat map_map comp_def record_rows_explode_row ..
  finally show ?thesis
    using out by blast
qed






lemma data_frame_batch:
  "batch_length st n \<Longrightarrow> data_frame st = Inr (map (frame_row_at st) [0..<n])"
  by (simp add: data_frame_def batch_length_def)

lemma output_row_present:
  "output_row str_of m_lat m_long m_clon m_clat
     \<lparr>idx = i, County = c, Local_UAT = u, Cadastral_number = k, Central_Lat = Some a,
      Central_Lon = Some b, Converted_Coordinates = cell\<rparr> (Some first) (Some second) =
   \<lparr>idx = i, County = c, Local_UAT = u, Cadastral_number = k, Central_Lat = Some a,
    Central_Lon = Some b, Lat = Some first, Long = Some second,
    Google_Maps_Link = Some (''https://maps.google.com/?q='' @ str_of first @ '','' @ str_of second),
    Google_Maps_Link_Central_Point =
      Some (''https://maps.google.com/?q='' @ str_of b @ '','' @ str_of a)\<rparr>"
  by (simp add: output_row_def render_def link_text_def)

lemma zip_map_both: "zip (map f xs) (map g xs) = map (\<lambda>x. (f x, g x)) xs"
  by (induction xs) simp_all

lemma create_output_dataframe_single:
  "create_output_dataframe str_of missing_text
     [\<lparr>idx = i, County = c, Local_UAT = u, Cadastral_number = k, Central_Lat = Some a,
       Central_Lon = Some b, Converted_Coordinates = Some (w # ws)\<rparr>] =
   Inr (map (\<lambda>(first, second).
          \<lparr>idx = i, County = c, Local_UAT = u, Cadastral_number = k, Central_Lat = Some a,
           Central_Lon = Some b, Lat = Some first, Long = Some second,
           Google_Maps_Link =
             Some (''https://maps.google.com/?q='' @ str_of first @ '','' @ str_of second),
           Google_Maps_Link_Central_Point =
             Some (''https://maps.google.com/?q='' @ str_of b @ '','' @ str_of a)\<rparr>) (w # ws))"
proof -
  let ?r = "\<lparr>idx = i, County = c, Local_UAT = u, Cadastral_number = k, Central_Lat = Some a,
       Central_Lon = Some b, Converted_Coordinates = Some (w # ws)\<rparr>"
  define R where "R = map (\<lambda>p. with_cell ?r (Some p)) (w # ws)"
  define L where "L = map (\<lambda>(x, y). (Some x, Some y)) (w # ws)"
  have E: "explode [?r] = R"
    by (simp add: explode_def R_def)
  have cells: "map Converted_Coordinates R = map Some (w # ws)"
    by (simp add: R_def with_cell_def comp_def)
  have split: "split_lat_long (map Some (w # ws)) = Inr L"
    by (auto simp add: split_lat_long_def L_def)
  have rows: "map (\<lambda>(r, lat, long). output_row str_of m1 m2 m3 m4 r lat long) (zip R L) =
      map (\<lambda>(first, second).
          \<lparr>idx = i, County = c, Local_UAT = u, Cadastral_number = k, Central_Lat = Some a,
           Central_Lon = Some b, Lat = Some first, Long = Some second,
           Google_Maps_Link =
             Some (''https://maps.google.com/?q='' @ str_of first @ '','' @ str_of second),
           Google_Maps_Link_Central_Point =
             Some (''https://maps.google.com/?q='' @ str_of b @ '','' @ str_of a)\<rparr>) (w # ws)"
    for m1 m2 m3 m4
    unfolding R_def L_def zip_map_both
    by (simp add: with_cell_def output_row_present split_def)
  show ?thesis
    unfolding create_output_dataframe_def Let_def E cells split sum.case rows ..
qed

text \<open>
  Claim C7. The transformer returns its pair in the order \<open>(x, y)\<close>, which with
  \<open>always_xy\<close> is (longitude, latitude), and the pair is stored as it is returned. For a
  batch of one record with data, \<open>Central_Lat\<close> is the mean of the first components of the
  vertices and \<open>Central_Lon\<close> the mean of the second ones; the column \<open>Lat\<close> holds the
  first component of a vertex and \<open>Long\<close> the second. The link of a vertex is built from
  \<open>Lat\<close> and then \<open>Long\<close>, the link of the centroid from \<open>Central_Lon\<close> and then
  \<open>Central_Lat\<close>: the first link starts with a first component, the second link with
  the mean of the second components.
\<close>

theorem axis_order_of_output:
  assumes url: "extract_url_from_html (Link row) = Some url"
    and fetched: "fetch_json requests_get url =
                    Inr (JDict ks (Some (Feature (Some (Geometry (Some rs))) # fs)))"
    and points: "0 < sum_list (map length rs)"
  shows "\<exists>vs central_lat central_lon.
           vs = concat (map (map (\<lambda>(x, y). tr x y)) rs) \<and>
           arithmetic_mean A (map fst vs) = Some central_lat \<and>
           arithmetic_mean A (map snd vs) = Some central_lon \<and>
           processing_data A tr requests_get str_of missing_text [row] =
             Inr (map (\<lambda>(first, second).
                    \<lparr>idx = 0, County = Some (Judet row), Local_UAT = Some (Comuna row),
                     Cadastral_number = Some (Numar_Carte_Funciara row),
                     Central_Lat = Some central_lat, Central_Lon = Some central_lon,
                     Lat = Some first, Long = Some second,
                     Google_Maps_Link =
                       Some (''https://maps.google.com/?q='' @ str_of first @ '','' @
                               str_of second),
                     Google_Maps_Link_Central_Point =
                       Some (''https://maps.google.com/?q='' @ str_of central_lon @ '','' @
                               str_of central_lat)\<rparr>) vs)"
proof -
  let ?j = "JDict ks (Some (Feature (Some (Geometry (Some rs))) # fs))"
  define vs where "vs = concat (map (map (\<lambda>(x, y). tr x y)) rs)"
  define a where "a = div_of A (py_sum A (map fst vs)) (length vs)"
  define b where "b = div_of A (py_sum A (map snd vs)) (length vs)"
  have len: "length vs = sum_list (map length rs)"
    by (simp only: vs_def converted_length)
  have "0 < length vs"
    unfolding len by (rule points)
  then obtain w ws where cons: "vs = w # ws"
    by (cases vs) auto
  then have ne: "vs \<noteq> []"
    by simp
  have conv: "convert_coordinates A tr ?j = Inr (Some vs, Some a, Some b)"
    unfolding a_def b_def by (rule convert_coordinates_nonempty [OF vs_def ne])
  have mean_a: "arithmetic_mean A (map fst vs) = Some a"
    using ne by (simp add: arithmetic_mean_py a_def)
  have mean_b: "arithmetic_mean A (map snd vs) = Some b"
    using ne by (simp add: arithmetic_mean_py b_def)
  have present: "truthy ?j"
    by simp
  define st where "st =
      \<lparr>converted_coordinates_list = [Some vs], central_lat_list = [Some a],
           central_lon_list = [Some b], judet_list = [Some (Judet row)],
           comuna_list = [Some (Comuna row)],
           nr_carte_funciara_list = [Some (Numar_Carte_Funciara row)],
           unique_coordinates = set vs\<rparr>"
  have run: "process_rows A tr requests_get empty_batch [row] = Inr st"
    by (simp add: process_row_data [OF url fetched present conv] empty_batch_def accumulate_empty
        st_def)
  have frame: "data_frame st =
      Inr [\<lparr>idx = 0, County = Some (Judet row), Local_UAT = Some (Comuna row),
           Cadastral_number = Some (Numar_Carte_Funciara row), Central_Lat = Some a,
           Central_Lon = Some b, Converted_Coordinates = Some (w # ws)\<rparr>]"
    by (simp add: data_frame_def frame_row_at_def st_def cons)
  have "processing_data A tr requests_get str_of missing_text [row] =
      Inr (map (\<lambda>(first, second).
                    \<lparr>idx = 0, County = Some (Judet row), Local_UAT = Some (Comuna row),
                     Cadastral_number = Some (Numar_Carte_Funciara row),
                     Central_Lat = Some a, Central_Lon = Some b,
                     Lat = Some first, Long = Some second,
                     Google_Maps_Link =
                       Some (''https://maps.google.com/?q='' @ str_of first @ '','' @
                               str_of second),
                     Google_Maps_Link_Central_Point =
                       Some (''https://maps.google.com/?q='' @ str_of b @ '','' @
                               str_of a)\<rparr>) vs)"
    unfolding processing_data_def run sum.case frame create_output_dataframe_single cons ..
  then show ?thesis
    using vs_def mean_a mean_b by blast
qed

text \<open>
  In the example the parcel \<open>edge\<close> has the vertices \<open>(2, 0)\<close> and \<open>(2, 2)\<close>: the mean
  of the first components is 2, the mean of the second ones is 1. The link of the first
  vertex reads \<open>2.0,0.0\<close>, first component first; the link of the centroid reads
  \<open>1.0,2.0\<close>, the mean of the second components first.
\<close>

theorem axis_order_of_output_witness:
  "processing_data exact_arith Pair example_requests_get example_str example_missing
     [example_record (request_link ''edge'')] =
   Inr [\<lparr>idx = 0, County = Some ''Arges'', Local_UAT = Some ''Ungheni'',
         Cadastral_number = Some 12476, Central_Lat = Some 2, Central_Lon = Some 1,
         Lat = Some 2, Long = Some 0,
         Google_Maps_Link = Some ''https://maps.google.com/?q=2.0,0.0'',
         Google_Maps_Link_Central_Point = Some ''https://maps.google.com/?q=1.0,2.0''\<rparr>,
        \<lparr>idx = 0, County = Some ''Arges'', Local_UAT = Some ''Ungheni'',
         Cadastral_number = Some 12476, Central_Lat = Some 2, Central_Lon = Some 1,
         Lat = Some 2, Long = Some 2,
         Google_Maps_Link = Some ''https://maps.google.com/?q=2.0,2.0'',
         Google_Maps_Link_Central_Point = Some ''https://maps.google.com/?q=1.0,2.0''\<rparr>]"
proof -
  have points: "0 < sum_list (map length [[(2, 0), (2, 2 :: real)]])"
    by simp
  from axis_order_of_output [OF example_urls(2) example_fetches(2) [unfolded edge_def] points,
      of Pair exact_arith example_str example_missing]
  obtain central_lat central_lon where
    "arithmetic_mean exact_arith (map fst [(2, 0), (2, 2 :: real)]) = Some central_lat"
    "arithmetic_mean exact_arith (map snd [(2, 0), (2, 2 :: real)]) = Some central_lon"
    "processing_data exact_arith Pair example_requests_get example_str example_missing
       [example_record (request_link ''edge'')] =
     Inr (map (\<lambda>(first, second).
            \<lparr>idx = 0, County = Some (Judet (example_record (request_link ''edge''))),
             Local_UAT = Some (Comuna (example_record (request_link ''edge''))),
             Cadastral_number = Some (Numar_Carte_Funciara (example_record (request_link ''edge''))),
             Central_Lat = Some central_lat, Central_Lon = Some central_lon,
             Lat = Some first, Long = Some second,
             Google_Maps_Link =
               Some (''https://maps.google.com/?q='' @ example_str first @ '','' @
                       example_str second),
             Google_Maps_Link_Central_Point =
               Some (''https://maps.google.com/?q='' @ example_str central_lon @ '','' @
                       example_str central_lat)\<rparr>) [(2, 0), (2, 2)])"
    by auto
  then show ?thesis
    by (auto simp add: arithmetic_mean_def exact_arith_def example_str_def example_record_def)
qed

section \<open>The rows of a batch\<close>

lemma idx_without_links [simp]: "idx (without_links row) = idx row"
  by (simp add: without_links_def)

lemma rows_at_filter: "rows_at i rows = filter (\<lambda>row. idx row = i) (map without_links rows)"
  by (simp add: rows_at_def filter_map comp_def)

lemma idx_record_rows: "row \<in> set (record_rows r) \<Longrightarrow> idx row = idx r"
  by (auto simp add: record_rows_def data_row_def split: option.splits list.splits)

lemma filter_record_rows:
  "filter (\<lambda>row. idx row = i) (record_rows r) = (if idx r = i then record_rows r else [])"
proof (cases "idx r = i")
  case True
  then have "filter (\<lambda>row. idx row = i) (record_rows r) = record_rows r"
    by (intro filter_True) (simp add: idx_record_rows)
  with True show ?thesis by simp
next
  case False
  then have "filter (\<lambda>row. idx row = i) (record_rows r) = []"
    by (intro filter_False) (simp add: idx_record_rows)
  with False show ?thesis by simp
qed

lemma filter_concat_record_rows:
  "map idx F = [a..<a + length F] \<Longrightarrow>
     filter (\<lambda>row. idx row = i) (concat (map record_rows F)) =
       (if a \<le> i \<and> i < a + length F then record_rows (F ! (i - a)) else [])"
proof (induction F arbitrary: a)
  case Nil
  show ?case by auto
next
  case (Cons r F)
  have "[a..<a + length (r # F)] = a # [Suc a..<Suc a + length F]"
    by (subst upt_rec) simp
  with Cons.prems have head: "idx r = a" and tail: "map idx F = [Suc a..<Suc a + length F]"
    by simp_all
  show ?case
  proof (cases "i = a")
    case True
    with head Cons.IH [OF tail] show ?thesis
      by (simp add: filter_record_rows)
  next
    case False
    with head Cons.IH [OF tail] show ?thesis
      by (auto simp add: filter_record_rows nth_Cons' Suc_diff_le)
  qed
qed

lemma rows_at_data:
  assumes "map without_links rows = concat (map record_rows F)"
    and "map idx F = [0..<length F]"
  shows "rows_at i rows = (if i < length F then record_rows (F ! i) else [])"
  using filter_concat_record_rows [of F 0 i] assms
  by (simp add: rows_at_filter)

lemma map_idx_frame:
  "map idx (map (frame_row_at st) [0..<n]) = [0..<length (map (frame_row_at st) [0..<n])]"
  by (simp add: comp_def frame_row_at_def)

text \<open>
  A batch yields an output frame exactly when its loop ends without an error and its
  first record has a kept vertex; the rows of the record number \<open>i\<close> are then the data
  of the entries number \<open>i\<close> of the six lists.
\<close>

lemma upt_first: "xs \<noteq> [] \<Longrightarrow> [0..<length xs] = 0 # [Suc 0..<length xs]"
  by (intro upt_conv_Cons) simp

lemma processing_data_rows:
  assumes run: "process_rows A tr requests_get empty_batch df = Inr st"
    and ne: "df \<noteq> []"
    and first: "Converted_Coordinates (frame_row_at st 0) = Some (v # vs)"
  shows "\<exists>rows. processing_data A tr requests_get str_of missing_text df = Inr rows \<and>
           map without_links rows = concat (map record_rows (map (frame_row_at st) [0..<length df])) \<and>
           (\<forall>i. rows_at i rows = (if i < length df then record_rows (frame_row_at st i) else []))"
proof -
  have len: "batch_length st (length df)"
    using process_rows_batch_length [OF run batch_length_empty] by simp
  let ?F = "map (frame_row_at st) [0..<length df]"
  have F: "?F = frame_row_at st 0 # map (frame_row_at st) [Suc 0..<length df]"
    by (simp only: upt_first [OF ne] list.map)
  from create_output_dataframe_data [OF first, of str_of missing_text
      "map (frame_row_at st) [Suc 0..<length df]"]
  have "\<exists>rows. create_output_dataframe str_of missing_text ?F = Inr rows \<and>
          map without_links rows = concat (map record_rows ?F)"
    by (simp only: F)
  then obtain rows where
    out: "create_output_dataframe str_of missing_text ?F = Inr rows" and
    data: "map without_links rows = concat (map record_rows ?F)"
    by blast
  have pd: "processing_data A tr requests_get str_of missing_text df = Inr rows"
    by (simp add: processing_data_def run data_frame_batch [OF len] out)
  have "rows_at i rows = (if i < length df then record_rows (frame_row_at st i) else [])" for i
    using rows_at_data [OF data map_idx_frame, of i] by simp
  with pd data show ?thesis
    by blast
qed


section \<open>Two records that share a vertex\<close>

lemma proj_without_links:
  "map (\<lambda>row. (idx row, Lat row, Long row)) rows =
   map (\<lambda>row. (idx row, Lat row, Long row)) (map without_links rows)"
  by (simp add: without_links_def comp_def)

lemma filter_shared_empty:
  assumes "distinct vs" and "p \<in> set vs"
  shows "filter (\<lambda>c. c \<noteq> p) vs = [] \<longleftrightarrow> vs = [p]"
proof
  assume empty: "filter (\<lambda>c. c \<noteq> p) vs = []"
  then have all: "\<forall>c \<in> set vs. c = p"
    by (simp add: filter_empty_conv)
  from assms(2) obtain w ws where vs: "vs = w # ws"
    by (cases vs) auto
  with all have w: "w = p" and rest: "\<forall>c \<in> set ws. c = p"
    by simp_all
  from assms(1) vs w have "p \<notin> set ws"
    by simp
  with rest have "ws = []"
    by (cases ws) auto
  with vs w show "vs = [p]"
    by simp
next
  assume "vs = [p]"
  then show "filter (\<lambda>c. c \<noteq> p) vs = []"
    by simp
qed

lemma two_records_rows:
  assumes url1: "extract_url_from_html (Link row1) = Some url1"
    and url2: "extract_url_from_html (Link row2) = Some url2"
    and fetched1: "fetch_json requests_get url1 =
                     Inr (JDict ks1 (Some (Feature (Some (Geometry (Some rs1))) # fs1)))"
    and fetched2: "fetch_json requests_get url2 =
                     Inr (JDict ks2 (Some (Feature (Some (Geometry (Some rs2))) # fs2)))"
    and vs1: "vs1 = concat (map (map (\<lambda>(x, y). tr x y)) rs1)"
    and vs2: "vs2 = concat (map (map (\<lambda>(x, y). tr x y)) rs2)"
    and d1: "distinct vs1" and d2: "distinct vs2"
    and shared: "set vs1 \<inter> set vs2 = {p}"
  shows "\<exists>st rows.
           process_rows A tr requests_get empty_batch [row1, row2] = Inr st \<and>
           converted_coordinates_list st = [Some vs1, Some (filter (\<lambda>c. c \<noteq> p) vs2)] \<and>
           unique_coordinates st = set vs1 \<union> set vs2 \<and>
           p \<in> set vs1 \<and> p \<notin> set (filter (\<lambda>c. c \<noteq> p) vs2) \<and>
           processing_data A tr requests_get str_of missing_text [row1, row2] = Inr rows \<and>
           map (\<lambda>row. (idx row, Lat row, Long row)) rows =
             map (\<lambda>(a, b). (0, Some a, Some b)) vs1 @
             (if vs2 = [p] then [(1, None, None)]
              else map (\<lambda>(a, b). (1, Some a, Some b)) (filter (\<lambda>c. c \<noteq> p) vs2)) \<and>
           length rows =
             (if vs2 = [p] then length vs1 + length vs2 else length vs1 + length vs2 - 1)"
proof -
  let ?j1 = "JDict ks1 (Some (Feature (Some (Geometry (Some rs1))) # fs1))"
  let ?j2 = "JDict ks2 (Some (Feature (Some (Geometry (Some rs2))) # fs2))"
  define kept2 where "kept2 = filter (\<lambda>c. c \<noteq> p) vs2"
  define a1 where "a1 = div_of A (py_sum A (map fst vs1)) (length vs1)"
  define b1 where "b1 = div_of A (py_sum A (map snd vs1)) (length vs1)"
  define a2 where "a2 = div_of A (py_sum A (map fst vs2)) (length vs2)"
  define b2 where "b2 = div_of A (py_sum A (map snd vs2)) (length vs2)"
  have p1: "p \<in> set vs1" and p2: "p \<in> set vs2"
    using shared by auto
  then have ne1: "vs1 \<noteq> []" and ne2: "vs2 \<noteq> []"
    by auto
  have conv1: "convert_coordinates A tr ?j1 = Inr (Some vs1, Some a1, Some b1)"
    unfolding a1_def b1_def by (rule convert_coordinates_nonempty [OF vs1 ne1])
  have conv2: "convert_coordinates A tr ?j2 = Inr (Some vs2, Some a2, Some b2)"
    unfolding a2_def b2_def by (rule convert_coordinates_nonempty [OF vs2 ne2])
  have t1: "truthy ?j1" and t2: "truthy ?j2"
    by simp_all
  have "\<And>c. c \<in> set vs2 \<Longrightarrow> (c \<notin> set vs1) = (c \<noteq> p)"
    using shared by auto
  then have "filter (\<lambda>c. c \<notin> set vs1) vs2 = filter (\<lambda>c. c \<noteq> p) vs2"
    by (intro filter_cong) auto
  then have k2: "filter (\<lambda>c. c \<notin> set vs1) vs2 = kept2"
    by (simp add: kept2_def)
  have "set vs1 \<union> set kept2 = set vs1 \<union> set vs2"
    using p1 by (auto simp add: kept2_def)
  then have acc2: "accumulate vs2 (set vs1) = (kept2, set vs1 \<union> set vs2)"
    by (simp add: accumulate_def k2)
  define st where "st =
      \<lparr>converted_coordinates_list = [Some vs1, Some kept2],
       central_lat_list = [Some a1, Some a2], central_lon_list = [Some b1, Some b2],
       judet_list = [Some (Judet row1), Some (Judet row2)],
       comuna_list = [Some (Comuna row1), Some (Comuna row2)],
       nr_carte_funciara_list =
         [Some (Numar_Carte_Funciara row1), Some (Numar_Carte_Funciara row2)],
       unique_coordinates = set vs1 \<union> set vs2\<rparr>"
  have run: "process_rows A tr requests_get empty_batch [row1, row2] = Inr st"
    unfolding process_rows.simps process_row_data [OF url1 fetched1 t1 conv1] sum.case
      process_row_data [OF url2 fetched2 t2 conv2]
    by (simp add: empty_batch_def accumulate_empty acc2 st_def)
  from ne1 obtain w ws where cons1: "vs1 = w # ws"
    by (cases vs1) auto
  have first: "Converted_Coordinates (frame_row_at st 0) = Some (w # ws)"
    by (simp add: frame_row_at_def st_def cons1)
  from processing_data_rows [OF run _ first, of str_of missing_text]
  obtain rows where
    pd: "processing_data A tr requests_get str_of missing_text [row1, row2] = Inr rows" and
    data: "map without_links rows =
             concat (map record_rows (map (frame_row_at st) [0..<length [row1, row2]]))"
    by auto
  have upt2: "[0..<length [row1, row2]] = [0, Suc 0]"
    by (simp add: upt_rec)
  have data': "map without_links rows =
      record_rows (frame_row_at st 0) @ record_rows (frame_row_at st (Suc 0))"
    using data unfolding upt2 by simp
  have r1: "map (\<lambda>row. (idx row, Lat row, Long row)) (record_rows (frame_row_at st 0)) =
      map (\<lambda>(a, b). (0, Some a, Some b)) vs1"
    unfolding record_rows_def first
    by (simp add: data_row_def frame_row_at_def cons1 split_def)
  have empty_iff: "kept2 = [] \<longleftrightarrow> vs2 = [p]"
    unfolding kept2_def by (rule filter_shared_empty [OF d2 p2])
  have r2: "map (\<lambda>row. (idx row, Lat row, Long row)) (record_rows (frame_row_at st (Suc 0))) =
      (if vs2 = [p] then [(1, None, None)] else map (\<lambda>(a, b). (1, Some a, Some b)) kept2)"
  proof (cases kept2)
    case Nil
    with empty_iff show ?thesis
      by (simp add: record_rows_def data_row_def frame_row_at_def st_def)
  next
    case (Cons k ks)
    with empty_iff have "vs2 \<noteq> [p]"
      by simp
    with Cons show ?thesis
      by (simp add: record_rows_def data_row_def frame_row_at_def st_def split_def)
  qed
  have proj: "map (\<lambda>row. (idx row, Lat row, Long row)) rows =
      map (\<lambda>(a, b). (0, Some a, Some b)) vs1 @
      (if vs2 = [p] then [(1, None, None)] else map (\<lambda>(a, b). (1, Some a, Some b)) kept2)"
    by (subst proj_without_links) (simp only: data' map_append r1 r2)
  have l2: "length kept2 = length vs2 - 1"
    using d2 p2 by (simp add: kept2_def length_filter_neq)
  have pos2: "1 \<le> length vs2"
    using ne2 by (cases vs2) auto
  have "length rows = length (map (\<lambda>row. (idx row, Lat row, Long row)) rows)"
    by simp
  also have "\<dots> = (if vs2 = [p] then length vs1 + length vs2 else length vs1 + length vs2 - 1)"
    unfolding proj using l2 pos2 by auto
  finally have len: "length rows =
      (if vs2 = [p] then length vs1 + length vs2 else length vs1 + length vs2 - 1)" .
  have "converted_coordinates_list st = [Some vs1, Some kept2]"
    "unique_coordinates st = set vs1 \<union> set vs2"
    by (simp_all add: st_def)
  moreover have "p \<notin> set kept2"
    by (simp add: kept2_def)
  ultimately show ?thesis
    using run p1 pd proj len unfolding kept2_def by blast
qed

lemma example_urls_shared:
  "extract_url_from_html (Link (example_record (request_link ''diagonal''))) = Some ''diagonal''"
  "extract_url_from_html (Link (example_record (request_link ''corner''))) = Some ''corner''"
  by (simp_all add: example_record_def extract_url_request_link dq_def)

lemma example_fetches_shared:
  "fetch_json example_requests_get ''diagonal'' = Inr diagonal"
  "fetch_json example_requests_get ''corner'' = Inr corner"
  by (simp_all add: fetch_json_def example_requests_get_def response_json_def)

text \<open>
  Claim C4, as the code has it. The collector keeps, from the vertex sequence of a
  record, exactly the coordinate pairs that are not in the set of seen coordinates, in
  their order, and adds every kept vertex to the set. So for the first two records of a
  run whose vertex lists have no repeated pair and share exactly the pair \<open>p\<close>, the kept
  list of the first record is its whole list, with \<open>p\<close>, and the kept list of the second
  is its list without \<open>p\<close>. The output has one row per kept vertex, \<open>length vs1 +
  length vs2 - 1\<close> rows in all, when the second record has a vertex besides \<open>p\<close>; when
  it has none, its kept list is empty and the output still holds one row for it, with
  missing \<open>Lat\<close> and \<open>Long\<close>, \<open>length vs1 + length vs2\<close> rows in all.
\<close>

theorem shared_vertex_two_records:
  assumes url1: "extract_url_from_html (Link row1) = Some url1"
    and url2: "extract_url_from_html (Link row2) = Some url2"
    and fetched1: "fetch_json requests_get url1 =
                     Inr (JDict ks1 (Some (Feature (Some (Geometry (Some rs1))) # fs1)))"
    and fetched2: "fetch_json requests_get url2 =
                     Inr (JDict ks2 (Some (Feature (Some (Geometry (Some rs2))) # fs2)))"
    and vs1: "vs1 = concat (map (map (\<lambda>(x, y). tr x y)) rs1)"
    and vs2: "vs2 = concat (map (map (\<lambda>(x, y). tr x y)) rs2)"
    and d1: "distinct vs1" and d2: "distinct vs2"
    and shared: "set vs1 \<inter> set vs2 = {p}"
  shows "(\<forall>vs seen. accumulate vs seen =
            (filter (\<lambda>c. c \<notin> seen) vs, seen \<union> set (filter (\<lambda>c. c \<notin> seen) vs))) \<and>
         (\<exists>st rows.
           process_rows A tr requests_get empty_batch [row1, row2] = Inr st \<and>
           converted_coordinates_list st = [Some vs1, Some (filter (\<lambda>c. c \<noteq> p) vs2)] \<and>
           unique_coordinates st = set vs1 \<union> set vs2 \<and>
           p \<in> set vs1 \<and> p \<notin> set (filter (\<lambda>c. c \<noteq> p) vs2) \<and>
           processing_data A tr requests_get str_of missing_text [row1, row2] = Inr rows \<and>
           map (\<lambda>row. (idx row, Lat row, Long row)) rows =
             map (\<lambda>(a, b). (0, Some a, Some b)) vs1 @
             (if vs2 = [p] then [(1, None, None)]
              else map (\<lambda>(a, b). (1, Some a, Some b)) (filter (\<lambda>c. c \<noteq> p) vs2)) \<and>
           length rows =
             (if vs2 = [p] then length vs1 + length vs2 else length vs1 + length vs2 - 1))"
proof -
  have "accumulate vs seen =
      (filter (\<lambda>c. c \<notin> seen) vs, seen \<union> set (filter (\<lambda>c. c \<notin> seen) vs))" for vs seen
    by (simp add: accumulate_def)
  with two_records_rows [OF url1 url2 fetched1 fetched2 vs1 vs2 d1 d2 shared,
      of A str_of missing_text]
  show ?thesis
    by blast
qed

text \<open>
  In the example the first record has the vertices \<open>(0, 0)\<close> and \<open>(2, 2)\<close>, the second
  \<open>(2, 0)\<close> and \<open>(2, 2)\<close>: three rows are produced, the shared vertex with the first
  record only.
\<close>

theorem shared_vertex_two_records_witness:
  "distinct [(0 :: real, 0 :: real), (2, 2)] \<and> distinct [(2 :: real, 0 :: real), (2, 2)] \<and>
   set [(0 :: real, 0 :: real), (2, 2)] \<inter> set [(2, 0), (2, 2)] = {(2, 2)} \<and>
   map_sum id (map (\<lambda>row. (idx row, Lat row, Long row)))
     (processing_data exact_arith Pair example_requests_get example_str example_missing
        [example_record (request_link ''diagonal''), example_record (request_link ''edge'')]) =
   Inr [(0, Some 0, Some 0), (0, Some 2, Some 2), (1, Some 2, Some 0)]"
proof -
  have vs1: "[(0 :: real, 0 :: real), (2, 2)] = concat (map (map (\<lambda>(x, y). (x, y))) [[(0, 0), (2, 2)]])"
    by simp
  have vs2: "[(2 :: real, 0 :: real), (2, 2)] = concat (map (map (\<lambda>(x, y). (x, y))) [[(2, 0), (2, 2)]])"
    by simp
  have d1: "distinct [(0 :: real, 0 :: real), (2, 2)]" and d2: "distinct [(2 :: real, 0 :: real), (2, 2)]"
    by simp_all
  have shared: "set [(0 :: real, 0 :: real), (2, 2)] \<inter> set [(2, 0), (2, 2)] = {(2, 2)}"
    by auto
  from shared_vertex_two_records
    [OF example_urls_shared(1) example_urls(2) example_fetches_shared(1) [unfolded diagonal_def]
        example_fetches(2) [unfolded edge_def] vs1 vs2 d1 d2 shared,
     of exact_arith example_str example_missing]
  obtain rows where
    "processing_data exact_arith Pair example_requests_get example_str example_missing
        [example_record (request_link ''diagonal''), example_record (request_link ''edge'')] =
      Inr rows"
    "map (\<lambda>row. (idx row, Lat row, Long row)) rows =
       map (\<lambda>(a, b). (0, Some a, Some b)) [(0 :: real, 0 :: real), (2, 2)] @
       (if [(2 :: real, 0 :: real), (2, 2)] = [(2, 2)] then [(1, None, None)]
        else map (\<lambda>(a, b). (1, Some a, Some b))
               (filter (\<lambda>c. c \<noteq> (2, 2)) [(2 :: real, 0 :: real), (2, 2)]))"
    by blast
  then show ?thesis
    using d1 d2 shared by simp
qed

text \<open>
  The claim as it was stated fails when the second record is the shared pair alone: the
  lists \<open>[(0, 0), (2, 2)]\<close> and \<open>[(2, 2)]\<close> have no repeated pair and share exactly one,
  the claim counts \<open>2 + 1 - 1 = 2\<close> rows, and three rows are produced, the third one
  for the second record, with missing \<open>Lat\<close> and \<open>Long\<close>.
\<close>

theorem shared_vertex_rows_counterexample:
  "distinct [(0 :: real, 0 :: real), (2, 2)] \<and> distinct [(2 :: real, 2 :: real)] \<and>
   set [(0 :: real, 0 :: real), (2, 2)] \<inter> set [(2, 2)] = {(2, 2)} \<and>
   length [(0 :: real, 0 :: real), (2, 2)] + length [(2 :: real, 2 :: real)] - 1 = 2 \<and>
   map_sum id (map (\<lambda>row. (idx row, Lat row, Long row)))
     (processing_data exact_arith Pair example_requests_get example_str example_missing
        [example_record (request_link ''diagonal''), example_record (request_link ''corner'')]) =
   Inr [(0, Some 0, Some 0), (0, Some 2, Some 2), (1, None, None)]"
proof -
  have vs1: "[(0 :: real, 0 :: real), (2, 2)] = concat (map (map (\<lambda>(x, y). (x, y))) [[(0, 0), (2, 2)]])"
    by simp
  have vs2: "[(2 :: real, 2 :: real)] = concat (map (map (\<lambda>(x, y). (x, y))) [[(2, 2)]])"
    by simp
  have d1: "distinct [(0 :: real, 0 :: real), (2, 2)]" and d2: "distinct [(2 :: real, 2 :: real)]"
    by simp_all
  have shared: "set [(0 :: real, 0 :: real), (2, 2)] \<inter> set [(2, 2)] = {(2, 2)}"
    by auto
  from two_records_rows
    [OF example_urls_shared(1) example_urls_shared(2)
        example_fetches_shared(1) [unfolded diagonal_def]
        example_fetches_shared(2) [unfolded corner_def] vs1 vs2 d1 d2 shared,
     of exact_arith example_str example_missing]
  obtain rows where
    "processing_data exact_arith Pair example_requests_get example_str example_missing
        [example_record (request_link ''diagonal''), example_record (request_link ''corner'')] =
      Inr rows"
    "map (\<lambda>row. (idx row, Lat row, Long row)) rows =
       map (\<lambda>(a, b). (0, Some a, Some b)) [(0 :: real, 0 :: real), (2, 2)] @
       (if [(2 :: real, 2 :: real)] = [(2, 2)] then [(1, None, None)]
        else map (\<lambda>(a, b). (1, Some a, Some b))
               (filter (\<lambda>c. c \<noteq> (2, 2)) [(2 :: real, 2 :: real)]))"
    by blast
  then show ?thesis
    using d1 d2 shared by simp
qed

section \<open>A record whose fetch fails\<close>
















end
